theory Spec2Isabelle
  imports Main "HOL-Library.Sublist"
begin

section \<open>JavaScript values\<close>

text \<open>
  A number, as JavaScript prints it: \<open>NaN\<close>, an infinity, zero (of either sign), or a
  sign, the decimal digits \<open>d1 ... dk\<close> of the shortest numeral that denotes the number, and
  the position \<open>n\<close> of its decimal point, the number being \<open>0.d1 ... dk\<close> times ten to
  the \<open>n\<close>: 17 is \<open>Decimal False ''17'' 2\<close>, 1.5 is \<open>Decimal False ''15'' 1\<close>, ten
  to the 21 is \<open>Decimal False ''1'' 22\<close>.
\<close>

datatype jsnum = NaN | PosInfinity | NegInfinity | Zero | Decimal bool string int

text \<open>
  The values the module handles: the parsed body of a response (\<open>response.json()\<close>), and
  \<open>undefined\<close>, which reading a missing property gives. An object is the list of its own
  properties.
\<close>

datatype jsval =
    JUndefined
  | JNull
  | JBool bool
  | JNum jsnum
  | JStr string
  | JArr "jsval list"
  | JObj "(string \<times> jsval) list"

datatype js_error = NetworkError | SyntaxError | TypeError | InvalidCharacterError

text \<open>
  The appointment identifier is a string or number token: what the page passes to
  \<open>cancelAppointment\<close> and \<open>showAppointmentDetails\<close>.
\<close>

datatype ident = IdString string | IdNumber jsnum

text \<open>The decimal numeral of a natural number.\<close>

definition digit :: "nat \<Rightarrow> char" where
  "digit n = ''0123456789'' ! n"

fun decimal :: "nat \<Rightarrow> string" where
  "decimal n = (if n < 10 then [digit n] else decimal (n div 10) @ [digit (n mod 10)])"

declare decimal.simps [simp del]

text \<open>
  How a number prints (the language's \<open>Number::toString\<close>). With \<open>k\<close> digits and the
  point at \<open>n\<close> between -5 and 21: the digits followed by \<open>n - k\<close> zeros when the point
  is at or after the last digit, the digits with a point after the first \<open>n\<close> when it is
  inside, and \<open>0.\<close>, \<open>-n\<close> zeros and the digits when it is before the first. Otherwise
  the exponent form: the first digit, a point and the other digits if there are any,
  \<open>e\<close>, the sign of the exponent and the numeral of \<open>n - 1\<close>.
\<close>

definition exponent_part :: "int \<Rightarrow> string" where
  "exponent_part n = ''e'' @ (if n < 0 then ''-'' else ''+'') @ decimal (nat \<bar>n - 1\<bar>)"

definition positive_to_string :: "string \<Rightarrow> int \<Rightarrow> string" where
  "positive_to_string ds n =
     (let k = int (length ds) in
      if - 5 \<le> n \<and> n \<le> 21 then
        if k \<le> n then ds @ replicate (nat (n - k)) CHR ''0''
        else if 0 < n then take (nat n) ds @ ''.'' @ drop (nat n) ds
        else ''0.'' @ replicate (nat (- n)) CHR ''0'' @ ds
      else if k = 1 then ds @ exponent_part n
      else take 1 ds @ ''.'' @ drop 1 ds @ exponent_part n)"

fun number_to_string :: "jsnum \<Rightarrow> string" where
  "number_to_string NaN = ''NaN''"
| "number_to_string PosInfinity = ''Infinity''"
| "number_to_string NegInfinity = ''-Infinity''"
| "number_to_string Zero = ''0''"
| "number_to_string (Decimal negative ds n) =
     (if negative then ''-'' else []) @ positive_to_string ds n"

text \<open>
  An integer as a number: its digits without the zeros at the end, the point after the
  last digit of its numeral.
\<close>

definition strip_zeros :: "string \<Rightarrow> string" where
  "strip_zeros ds = rev (dropWhile (\<lambda>c. c = CHR ''0'') (rev ds))"

definition js_int :: "int \<Rightarrow> jsnum" where
  "js_int i =
     (if i = 0 then Zero
      else Decimal (i < 0) (strip_zeros (decimal (nat \<bar>i\<bar>))) (int (length (decimal (nat \<bar>i\<bar>)))))"

fun join :: "string \<Rightarrow> string list \<Rightarrow> string" where
  "join sep [] = []"
| "join sep [x] = x"
| "join sep (x # y # ys) = x @ sep @ join sep (y # ys)"

text \<open>
  \<open>ToString\<close>, as string concatenation, a template literal and \<open>alert\<close> apply it. An
  array prints its elements joined by commas, \<open>null\<close> and \<open>undefined\<close> elements as
  the empty string. An object prints as \<open>[object Object]\<close> through the inherited
  \<open>toString\<close>; an own property of that name shadows it with a value that cannot be
  called, and the conversion throws a TypeError (\<open>None\<close>).
\<close>

fun to_string :: "jsval \<Rightarrow> string option" where
  "to_string JUndefined = Some ''undefined''"
| "to_string JNull = Some ''null''"
| "to_string (JBool b) = Some (if b then ''true'' else ''false'')"
| "to_string (JNum x) = Some (number_to_string x)"
| "to_string (JStr s) = Some s"
| "to_string (JArr xs) =
     map_option (join '','')
       (those (map (\<lambda>v. case v of JUndefined \<Rightarrow> Some [] | JNull \<Rightarrow> Some [] | _ \<Rightarrow> to_string v) xs))"
| "to_string (JObj ps) =
     (if ''toString'' \<in> fst ` set ps then None else Some ''[object Object]'')"

fun ident_to_string :: "ident \<Rightarrow> string" where
  "ident_to_string (IdString s) = s"
| "ident_to_string (IdNumber x) = number_to_string x"

text \<open>\<open>ToBoolean\<close>, as \<open>if (v)\<close> and \<open>!v\<close> apply it.\<close>

fun truthy :: "jsval \<Rightarrow> bool" where
  "truthy JUndefined = False"
| "truthy JNull = False"
| "truthy (JBool b) = b"
| "truthy (JNum x) = (x \<noteq> NaN \<and> x \<noteq> Zero)"
| "truthy (JStr s) = (s \<noteq> [])"
| "truthy (JArr xs) = True"
| "truthy (JObj ps) = True"

text \<open>
  Reading the property \<open>success\<close> or \<open>message\<close> of a value: a TypeError on
  \<open>null\<close> and \<open>undefined\<close>, the own property of an object, and \<open>undefined\<close>
  everywhere else (no prototype has a property of either name).
\<close>

fun get_prop :: "jsval \<Rightarrow> string \<Rightarrow> js_error + jsval" where
  "get_prop JUndefined k = Inl TypeError"
| "get_prop JNull k = Inl TypeError"
| "get_prop (JObj ps) k = (case map_of ps k of None \<Rightarrow> Inr JUndefined | Some v \<Rightarrow> Inr v)"
| "get_prop v k = Inr JUndefined"

section \<open>The page, the user and the server\<close>

text \<open>
  An element of the document: its identity (\<open>handle\<close>, what a variable holding the element
  refers to), its \<open>id\<close> attribute, its class list, its \<open>value\<close> if it is a form control,
  and the elements it contains. The document is the list of its top elements.
\<close>

datatype element =
  Element (handle: nat) (elem_id: string) (classes: "string list")
    (elem_value: "string option") (children: "element list")

text \<open>An element and all it contains, in document order.\<close>

fun elements :: "element \<Rightarrow> element list" where
  "elements (Element h i cs v ks) = Element h i cs v ks # concat (map elements ks)"

definition all_elements :: "element list \<Rightarrow> element list" where
  "all_elements d = concat (map elements d)"

definition getElementById :: "element list \<Rightarrow> string \<Rightarrow> element option" where
  "getElementById d i = find (\<lambda>e. elem_id e = i) (all_elements d)"

definition has_class :: "string \<Rightarrow> element \<Rightarrow> bool" where
  "has_class c e = (c \<in> set (classes e))"

text \<open>
  A selector \<open>.c1, .c2\<close> is the list of its class names; it matches an element that has one
  of them. \<open>querySelectorAll\<close> gives the matching elements in document order, each once.
\<close>

definition matches :: "string list \<Rightarrow> element \<Rightarrow> bool" where
  "matches sel e = list_ex (\<lambda>c. has_class c e) sel"

definition querySelectorAll :: "element list \<Rightarrow> string list \<Rightarrow> element list" where
  "querySelectorAll d sel = filter (matches sel) (all_elements d)"

text \<open>
  \<open>classList.add\<close> on the element with handle \<open>target\<close>, wherever it is in the tree: a
  class list holds a class once.
\<close>

fun add_class_at :: "nat \<Rightarrow> string \<Rightarrow> element \<Rightarrow> element" where
  "add_class_at target c (Element h i cs v ks) =
     Element h i (if h = target \<and> c \<notin> set cs then cs @ [c] else cs) v
       (map (add_class_at target c) ks)"

text \<open>
  \<open>remove()\<close> on the element with handle \<open>target\<close>: it leaves its parent, and what it
  contains leaves the document with it.
\<close>

fun detach :: "nat \<Rightarrow> element \<Rightarrow> element" where
  "detach target (Element h i cs v ks) =
     Element h i cs v (map (detach target) (filter (\<lambda>k. handle k \<noteq> target) ks))"

definition detach_all :: "nat \<Rightarrow> element list \<Rightarrow> element list" where
  "detach_all target d = map (detach target) (filter (\<lambda>k. handle k \<noteq> target) d)"

record request =
  req_url :: string
  req_method :: string
  req_headers :: "(string \<times> string) list"
  req_body :: "string option"

text \<open>What the page, the console and the network see of a call, in order.\<close>

datatype effect =
    PreventDefault
  | Confirm string
  | Alert string
  | Fetch request
  | ConsoleError string js_error
  | ConsoleLog string ident
  | Reload
  | SetLocation string

text \<open>A promise that has settled: fulfilled with a value or rejected with a reason.\<close>

datatype 'a settled = Fulfilled 'a | Rejected js_error

text \<open>
  A response, of any status: all the module does with it is call \<open>json()\<close>, which gives the
  parsed body or rejects with a SyntaxError.
\<close>

datatype response = Response (json_of: "jsval settled")

text \<open>
  The world a call runs in: the document, the answer of the user to a confirmation prompt,
  and what the network does with a request (a rejected \<open>fetch\<close> is a network failure).
\<close>

record world =
  page :: "element list"
  user_confirms :: "string \<Rightarrow> bool"
  server :: "request \<Rightarrow> response settled"

text \<open>
  The result of a call: its effects, those of its promise chain included, and the exception
  nothing caught, if any (thrown by the call or left as the rejection of its chain).
\<close>

record run =
  effects :: "effect list"
  uncaught :: "js_error option"

subsection \<open>Promise chains\<close>

text \<open>
  A chain is the effects performed until it settles, and how it settles. \<open>then\<close> runs its
  handler on a fulfilled chain and passes a rejection on; \<open>catch\<close> runs its handler on a
  rejection and passes a value on. A handler that throws rejects the chain.
\<close>

type_synonym 'a promise = "effect list \<times> 'a settled"

definition then_p :: "'a promise \<Rightarrow> ('a \<Rightarrow> 'b promise) \<Rightarrow> 'b promise" where
  "then_p p f =
     (case p of
        (es, Fulfilled x) \<Rightarrow> (case f x of (es', r) \<Rightarrow> (es @ es', r))
      | (es, Rejected e) \<Rightarrow> (es, Rejected e))"

definition catch_p :: "'a promise \<Rightarrow> (js_error \<Rightarrow> 'a promise) \<Rightarrow> 'a promise" where
  "catch_p p f =
     (case p of
        (es, Fulfilled x) \<Rightarrow> (es, Fulfilled x)
      | (es, Rejected e) \<Rightarrow> (case f e of (es', r) \<Rightarrow> (es @ es', r)))"

definition fetch :: "world \<Rightarrow> request \<Rightarrow> response promise" where
  "fetch w req = ([Fetch req], server w req)"

definition response_json :: "response \<Rightarrow> jsval promise" where
  "response_json response = ([], json_of response)"

text \<open>The call returns once the chain is set up; the chain's effects follow the call's own.\<close>

definition finish :: "effect list \<Rightarrow> 'a promise \<Rightarrow> run" where
  "finish es p =
     (case p of
        (es', Fulfilled x) \<Rightarrow> \<lparr>effects = es @ es', uncaught = None\<rparr>
      | (es', Rejected e) \<Rightarrow> \<lparr>effects = es @ es', uncaught = Some e\<rparr>)"

section \<open>Navigation shortcuts\<close>

definition showPatientsList :: "world \<Rightarrow> run" where
  "showPatientsList w = \<lparr>effects = [SetLocation ''/doctor/patients''], uncaught = None\<rparr>"

definition consultPatients :: "world \<Rightarrow> run" where
  "consultPatients w = \<lparr>effects = [SetLocation ''/doctor/notifications''], uncaught = None\<rparr>"

definition showAppointmentDetails :: "world \<Rightarrow> ident \<Rightarrow> run" where
  "showAppointmentDetails w appointmentId =
     \<lparr>effects = [ConsoleLog ''Show appointment details for:'' appointmentId],
      uncaught = None\<rparr>"

section \<open>Cancel appointment\<close>

definition cancel_prompt :: string where
  "cancel_prompt = ''Are you sure you want to cancel this appointment?''"

definition cancel_request :: "ident \<Rightarrow> request" where
  "cancel_request appointmentId =
     \<lparr>req_url = ''/cancel_appointment/'' @ ident_to_string appointmentId,
      req_method = ''POST'',
      req_headers = [(''Content-Type'', ''application/json'')],
      req_body = None\<rparr>"

text \<open>The handler \<open>data => { ... }\<close> of the cancellation.\<close>

definition cancel_on_data :: "jsval \<Rightarrow> unit promise" where
  "cancel_on_data data =
     (case get_prop data ''success'' of
        Inl e \<Rightarrow> ([], Rejected e)
      | Inr success \<Rightarrow>
          if truthy success then
            ([Alert ''Appointment cancelled successfully'', Reload], Fulfilled ())
          else
            (case get_prop data ''message'' of
               Inl e \<Rightarrow> ([], Rejected e)
             | Inr message \<Rightarrow>
                 (case to_string message of
                    None \<Rightarrow> ([], Rejected TypeError)
                  | Some m \<Rightarrow> ([Alert (''Error cancelling appointment: '' @ m)], Fulfilled ()))))"

text \<open>The handler \<open>error => { ... }\<close> of the cancellation.\<close>

definition cancel_on_error :: "js_error \<Rightarrow> unit promise" where
  "cancel_on_error error =
     ([ConsoleError ''Error:'' error, Alert ''Error cancelling appointment''], Fulfilled ())"

definition cancelAppointment :: "world \<Rightarrow> ident \<Rightarrow> run" where
  "cancelAppointment w appointmentId =
     (if user_confirms w cancel_prompt then
        finish [Confirm cancel_prompt]
          (catch_p
             (then_p (then_p (fetch w (cancel_request appointmentId)) response_json)
                cancel_on_data)
             cancel_on_error)
      else \<lparr>effects = [Confirm cancel_prompt], uncaught = None\<rparr>)"

section \<open>Delete appointments by date\<close>

definition delete_prompt :: "string \<Rightarrow> string" where
  "delete_prompt selectedDate =
     ''Are you sure you want to delete all appointments for '' @ selectedDate @ ''?''"

definition delete_request :: "string \<Rightarrow> request" where
  "delete_request selectedDate =
     \<lparr>req_url = ''/delete_appointments_by_date'',
      req_method = ''POST'',
      req_headers = [(''Content-Type'', ''application/x-www-form-urlencoded'')],
      req_body = Some (''date='' @ selectedDate)\<rparr>"

text \<open>The handler \<open>data => { ... }\<close> of the deletion.\<close>

definition delete_on_data :: "jsval \<Rightarrow> unit promise" where
  "delete_on_data data =
     (case get_prop data ''success'' of
        Inl e \<Rightarrow> ([], Rejected e)
      | Inr success \<Rightarrow>
          if truthy success then
            (case get_prop data ''message'' of
               Inl e \<Rightarrow> ([], Rejected e)
             | Inr message \<Rightarrow>
                 (case to_string message of
                    None \<Rightarrow> ([], Rejected TypeError)
                  | Some m \<Rightarrow> ([Alert m, Reload], Fulfilled ())))
          else
            (case get_prop data ''message'' of
               Inl e \<Rightarrow> ([], Rejected e)
             | Inr message \<Rightarrow>
                 (case to_string message of
                    None \<Rightarrow> ([], Rejected TypeError)
                  | Some m \<Rightarrow> ([Alert (''Error: '' @ m)], Fulfilled ()))))"

text \<open>The handler \<open>error => { ... }\<close> of the deletion.\<close>

definition delete_on_error :: "js_error \<Rightarrow> unit promise" where
  "delete_on_error error =
     ([ConsoleError ''Error:'' error, Alert ''Error deleting appointments''], Fulfilled ())"

text \<open>
  What \<open>deleteAppointmentsByDate\<close> is called with: the submit event of the form, or a
  value that is no event (\<open>undefined\<close> when it is called with no argument).
\<close>

datatype event_arg = SubmitEvent | NoEvent jsval

text \<open>
  \<open>event.preventDefault()\<close> comes first: on a value that is no event it throws a TypeError
  (\<open>undefined\<close> and \<open>null\<close> have no properties, and no other value has a
  \<open>preventDefault\<close> that can be called).
  \<open>getElementById\<close> gives \<open>null\<close> when no element has the id, and reading \<open>value\<close> of
  \<open>null\<close> throws. An element that is no form control has no \<open>value\<close>: the read gives
  \<open>undefined\<close>, which \<open>!selectedDate\<close> takes like the empty string.
\<close>

definition deleteAppointmentsByDate :: "world \<Rightarrow> event_arg \<Rightarrow> run" where
  "deleteAppointmentsByDate w event =
     (case event of
        NoEvent v \<Rightarrow> \<lparr>effects = [], uncaught = Some TypeError\<rparr>
      | SubmitEvent \<Rightarrow>
     (case getElementById (page w) ''deleteDate'' of
        None \<Rightarrow> \<lparr>effects = [PreventDefault], uncaught = Some TypeError\<rparr>
      | Some dateInput \<Rightarrow>
          (case elem_value dateInput of
             None \<Rightarrow> \<lparr>effects = [PreventDefault, Alert ''Please select a date''], uncaught = None\<rparr>
           | Some selectedDate \<Rightarrow>
               if selectedDate = [] then
                 \<lparr>effects = [PreventDefault, Alert ''Please select a date''], uncaught = None\<rparr>
               else if user_confirms w (delete_prompt selectedDate) then
                 finish [PreventDefault, Confirm (delete_prompt selectedDate)]
                   (catch_p
                      (then_p (then_p (fetch w (delete_request selectedDate)) response_json)
                         delete_on_data)
                      delete_on_error)
               else
                 \<lparr>effects = [PreventDefault, Confirm (delete_prompt selectedDate)],
                  uncaught = None\<rparr>)))"

section \<open>Alert auto-dismiss\<close>

text \<open>
  The two functions given to \<open>setTimeout\<close>, each with the alert it closes over: the outer
  one adds the class and sets the second timer, the inner one removes the alert.
\<close>

datatype task = FadeOut nat | RemoveAlert nat

datatype dom_op = ClassAdded nat string | NodeRemoved nat

text \<open>
  The browser as the timers see it: a clock in milliseconds, the document, the timers set
  and not yet run, each with the time it is due, a log of the changes made to the
  document, each with the time of the change, and the exceptions that nothing caught.
\<close>

record browser =
  now :: nat
  document :: "element list"
  timers :: "(nat \<times> task) list"
  dom_log :: "(nat \<times> dom_op) list"
  thrown :: "js_error list"

definition setTimeout :: "task \<Rightarrow> nat \<Rightarrow> browser \<Rightarrow> browser" where
  "setTimeout callback delay b = b\<lparr>timers := timers b @ [(now b + delay, callback)]\<rparr>"

text \<open>
  \<open>classList.add\<close> throws a SyntaxError on the empty token and an InvalidCharacterError on
  a token that holds ASCII whitespace; otherwise it adds the class.
\<close>

definition ascii_whitespace :: "char list" where
  "ascii_whitespace = [CHR 0x09, CHR 0x0A, CHR 0x0C, CHR 0x0D, CHR 0x20]"

definition class_added :: "nat \<Rightarrow> string \<Rightarrow> browser \<Rightarrow> browser" where
  "class_added target c b =
     b\<lparr>document := map (add_class_at target c) (document b),
       dom_log := dom_log b @ [(now b, ClassAdded target c)]\<rparr>"

definition classList_add :: "nat \<Rightarrow> string \<Rightarrow> browser \<Rightarrow> js_error + browser" where
  "classList_add target c b =
     (if c = [] then Inl SyntaxError
      else if list_ex (\<lambda>x. x \<in> set ascii_whitespace) c then Inl InvalidCharacterError
      else Inr (class_added target c b))"

definition remove_node :: "nat \<Rightarrow> browser \<Rightarrow> browser" where
  "remove_node target b =
     b\<lparr>document := detach_all target (document b),
       dom_log := dom_log b @ [(now b, NodeRemoved target)]\<rparr>"

text \<open>
  A timer's function runs to its end or to the first exception, which nothing catches: the
  browser reports it and goes on with the next timer.
\<close>

fun run_task :: "task \<Rightarrow> browser \<Rightarrow> browser" where
  "run_task (FadeOut alert) b =
     (case classList_add alert ''alert-fade-out'' b of
        Inl e \<Rightarrow> b\<lparr>thrown := thrown b @ [e]\<rparr>
      | Inr b' \<Rightarrow> setTimeout (RemoveAlert alert) 500 b')"
| "run_task (RemoveAlert alert) b = remove_node alert b"

definition alert_selector :: "string list" where
  "alert_selector = [''alert-success'', ''alert-danger'']"

definition autoDismissAlerts :: "browser \<Rightarrow> browser" where
  "autoDismissAlerts b =
     foldl (\<lambda>b' alert. setTimeout (FadeOut (handle alert)) 1500 b') b
       (querySelectorAll (document b) alert_selector)"

text \<open>
  The event loop runs the timers in the order they are due, those due at the same time in
  the order they were set. \<open>pick\<close> takes the next timer out of the list.
\<close>

fun pick :: "(nat \<times> 'a) list \<Rightarrow> ((nat \<times> 'a) \<times> (nat \<times> 'a) list) option" where
  "pick [] = None"
| "pick (t # ts) =
     (case pick ts of
        None \<Rightarrow> Some (t, [])
      | Some (m, rest) \<Rightarrow> if fst t \<le> fst m then Some (t, ts) else Some (m, t # rest))"

text \<open>How many timers a task stands for: itself and the one it sets.\<close>

fun spawns :: "task \<Rightarrow> nat" where
  "spawns (FadeOut alert) = 2"
| "spawns (RemoveAlert alert) = 1"

text \<open>
  \<open>run_until T\<close> lets the time pass until \<open>T\<close>: every timer due by then runs, at the
  time it is due, the timers it sets included.
\<close>

function run_until :: "nat \<Rightarrow> browser \<Rightarrow> browser" where
  "run_until T b =
     (case pick (timers b) of
        None \<Rightarrow> b\<lparr>now := max (now b) T\<rparr>
      | Some ((due, callback), rest) \<Rightarrow>
          if due \<le> T then
            run_until T (run_task callback (b\<lparr>now := max (now b) due, timers := rest\<rparr>))
          else b\<lparr>now := max (now b) T\<rparr>)"
  by pat_completeness auto
termination
proof (relation "measure (\<lambda>(T, b). sum_list (map (\<lambda>t. spawns (snd t)) (timers b)))")
  show "wf (measure (\<lambda>(T, b). sum_list (map (\<lambda>t. spawns (snd t)) (timers b))))"
    by simp
next
  fix T :: nat and b :: browser and x2 x1 rest due callback
  assume p: "pick (timers b) = Some x2" and "(x1, rest) = x2" and "(due, callback) = x1"
  have none: "ts = []" if "pick ts = None" for ts :: "(nat \<times> task) list"
    using that by (cases ts) (auto split: option.splits if_splits)
  have picked: "sum_list (map (\<lambda>t. spawns (snd t)) r) + spawns (snd m)
      = sum_list (map (\<lambda>t. spawns (snd t)) ts)"
    if "pick ts = Some (m, r)" for ts r and m :: "nat \<times> task"
    using that
    by (induction ts arbitrary: m r) (auto split: option.splits if_splits dest: none)
  from p \<open>(x1, rest) = x2\<close> \<open>(due, callback) = x1\<close>
  have "pick (timers b) = Some ((due, callback), rest)" by simp
  from picked [OF this]
  have "sum_list (map (\<lambda>t. spawns (snd t)) rest) + spawns callback
      = sum_list (map (\<lambda>t. spawns (snd t)) (timers b))" by simp
  then show "((T, run_task callback (b\<lparr>now := max (now b) due, timers := rest\<rparr>)), (T, b))
      \<in> measure (\<lambda>(T, b). sum_list (map (\<lambda>t. spawns (snd t)) (timers b)))"
    by (cases callback)
       (simp_all add: setTimeout_def classList_add_def class_added_def remove_node_def)
qed

declare run_until.simps [simp del]

section \<open>What a run did\<close>

definition fetches :: "run \<Rightarrow> request list" where
  "fetches r = concat (map (\<lambda>e. case e of Fetch q \<Rightarrow> [q] | _ \<Rightarrow> []) (effects r))"

definition alerts :: "run \<Rightarrow> string list" where
  "alerts r = concat (map (\<lambda>e. case e of Alert s \<Rightarrow> [s] | _ \<Rightarrow> []) (effects r))"

definition reloads :: "run \<Rightarrow> nat" where
  "reloads r = count_list (effects r) Reload"

definition error_logs :: "run \<Rightarrow> js_error list" where
  "error_logs r = concat (map (\<lambda>e. case e of ConsoleError s x \<Rightarrow> [x] | _ \<Rightarrow> []) (effects r))"

definition confirms :: "run \<Rightarrow> string list" where
  "confirms r = concat (map (\<lambda>e. case e of Confirm s \<Rightarrow> [s] | _ \<Rightarrow> []) (effects r))"

text \<open>
  How a request failed, if it did: the network rejected it, or the body of the response did
  not parse.
\<close>

fun failure_of :: "response settled \<Rightarrow> js_error option" where
  "failure_of (Rejected e) = Some e"
| "failure_of (Fulfilled (Response (Rejected e))) = Some e"
| "failure_of (Fulfilled (Response (Fulfilled data))) = None"





text \<open>
  What the timers do to the document, said of the elements a predicate selects:
  \<open>add_class_where\<close> adds a class to each selected element and changes nothing else;
  \<open>without_all\<close> is the document with each selected element taken out, with what it
  contains, and every other element as it was.
\<close>

fun add_class_where :: "(element \<Rightarrow> bool) \<Rightarrow> string \<Rightarrow> element \<Rightarrow> element" where
  "add_class_where P c (Element h i cs v ks) =
     Element h i (if P (Element h i cs v ks) \<and> c \<notin> set cs then cs @ [c] else cs) v
       (map (add_class_where P c) ks)"

fun without :: "(element \<Rightarrow> bool) \<Rightarrow> element \<Rightarrow> element" where
  "without P (Element h i cs v ks) =
     Element h i cs v (map (without P) (filter (\<lambda>k. \<not> P k) ks))"

definition without_all :: "(element \<Rightarrow> bool) \<Rightarrow> element list \<Rightarrow> element list" where
  "without_all P d = map (without P) (filter (\<lambda>k. \<not> P k) d)"

section \<open>Example worlds\<close>

definition flash_page :: "element list" where
  "flash_page =
     [Element 0 ''main'' [''container''] None
        [Element 1 [] [''alert'', ''alert-success''] None
           [Element 2 [] [''btn-close''] None []],
         Element 3 [] [''alert'', ''alert-danger''] None [],
         Element 4 ''appointments'' [''table''] None []]]"

definition date_input :: "string \<Rightarrow> element" where
  "date_input d = Element 5 ''deleteDate'' [''form-control''] (Some d) []"

definition date_page :: "string \<Rightarrow> element list" where
  "date_page d = flash_page @ [date_input d]"

definition fresh_browser :: "element list \<Rightarrow> browser" where
  "fresh_browser d = \<lparr>now = 0, document = d, timers = [], dom_log = [], thrown = []\<rparr>"

definition world_of :: "element list \<Rightarrow> bool \<Rightarrow> response settled \<Rightarrow> world" where
  "world_of doc answer outcome =
     \<lparr>page = doc, user_confirms = (\<lambda>prompt. answer), server = (\<lambda>req. outcome)\<rparr>"

definition replies :: "jsval \<Rightarrow> response settled" where
  "replies data = Fulfilled (Response (Fulfilled data))"

section \<open>Properties\<close>

subsection \<open>Auxiliary facts\<close>

lemma getElementById_date_page [simp]:
  "getElementById (date_page d) ''deleteDate''
     = Some (date_input d)"
  by (simp add: getElementById_def all_elements_def date_page_def flash_page_def date_input_def)

lemma elem_value_date_input [simp]: "elem_value (date_input d) = Some d"
  by (simp add: date_input_def)

lemma getElementById_flash_page [simp]: "getElementById flash_page ''deleteDate'' = None"
  by (simp add: getElementById_def all_elements_def flash_page_def)

lemma world_of_sel [simp]:
  "page (world_of doc answer outcome) = doc"
  "user_confirms (world_of doc answer outcome) prompt = answer"
  "server (world_of doc answer outcome) req = outcome"
  by (simp_all add: world_of_def)



lemma decimal_not_Nil [simp]: "decimal n \<noteq> []"
  by (subst decimal.simps) simp














lemma sublist_after_prefix: "sublist xs (ps @ xs)"
  using sublist_appendI [of xs ps "[]"] by simp

lemmas chain_defs =
  finish_def catch_p_def then_p_def fetch_def response_json_def

lemmas observe_defs =
  fetches_def alerts_def reloads_def error_logs_def confirms_def

subsection \<open>Cancel appointment\<close>

text \<open>
  C5: when the user declines the confirmation prompt of \<open>cancelAppointment\<close>, the call
  does nothing more than the prompt, for every appointment identifier: no request, no alert,
  no reload, no exception.
\<close>

theorem cancel_declined_no_effect:
  assumes "\<not> user_confirms w cancel_prompt"
  shows "effects (cancelAppointment w appointmentId) = [Confirm cancel_prompt]
       \<and> fetches (cancelAppointment w appointmentId) = []
       \<and> alerts (cancelAppointment w appointmentId) = []
       \<and> reloads (cancelAppointment w appointmentId) = 0
       \<and> uncaught (cancelAppointment w appointmentId) = None"
  using assms by (simp add: cancelAppointment_def observe_defs)

theorem cancel_declined_no_effect_witness:
  "\<not> user_confirms (world_of flash_page False (replies JNull)) cancel_prompt
   \<and> effects (cancelAppointment (world_of flash_page False (replies JNull)) (IdNumber (js_int 7)))
       = [Confirm cancel_prompt]
   \<and> fetches (cancelAppointment (world_of flash_page False (replies JNull)) (IdNumber (js_int 7))) = []"
  using cancel_declined_no_effect [of "world_of flash_page False (replies JNull)" "IdNumber (js_int 7)"]
  by simp

text \<open>
  C1: when the user accepts the prompt and the body of the response is an object whose
  \<open>success\<close> is \<open>true\<close>, \<open>cancelAppointment\<close> shows the success notification and
  then reloads the page, once; it shows no other alert and logs no error. This holds for
  every appointment identifier.
\<close>

theorem cancel_success_reloads_once:
  assumes "user_confirms w cancel_prompt"
    and "server w (cancel_request appointmentId) = Fulfilled (Response (Fulfilled data))"
    and "get_prop data ''success'' = Inr (JBool True)"
  shows "effects (cancelAppointment w appointmentId)
           = [Confirm cancel_prompt, Fetch (cancel_request appointmentId),
              Alert ''Appointment cancelled successfully'', Reload]
       \<and> alerts (cancelAppointment w appointmentId) = [''Appointment cancelled successfully'']
       \<and> reloads (cancelAppointment w appointmentId) = 1
       \<and> error_logs (cancelAppointment w appointmentId) = []
       \<and> uncaught (cancelAppointment w appointmentId) = None"
  using assms
  by (simp add: cancelAppointment_def chain_defs cancel_on_data_def observe_defs)

theorem cancel_success_reloads_once_witness:
  "get_prop (JObj [(''success'', JBool True)]) ''success'' = Inr (JBool True)
   \<and> reloads (cancelAppointment
         (world_of flash_page True (replies (JObj [(''success'', JBool True)]))) (IdString ''42'')) = 1
   \<and> alerts (cancelAppointment
         (world_of flash_page True (replies (JObj [(''success'', JBool True)]))) (IdString ''42''))
       = [''Appointment cancelled successfully'']"
  using cancel_success_reloads_once
    [of "world_of flash_page True (replies (JObj [(''success'', JBool True)]))" "IdString ''42''"
        "JObj [(''success'', JBool True)]"]
  by (simp add: replies_def)



subsection \<open>Delete appointments by date\<close>

text \<open>
  C3: when the element with id \<open>deleteDate\<close> holds the empty value,
  \<open>deleteAppointmentsByDate\<close> shows the validation alert and stops: it presents no
  confirmation prompt and issues no request. The world is arbitrary, so this holds whatever
  the user would have answered and whatever the network would have done.
\<close>

theorem delete_empty_date_validation:
  assumes "getElementById (page w) ''deleteDate'' = Some dateInput"
    and "elem_value dateInput = Some []"
  shows "effects (deleteAppointmentsByDate w SubmitEvent)
           = [PreventDefault, Alert ''Please select a date'']
       \<and> alerts (deleteAppointmentsByDate w SubmitEvent) = [''Please select a date'']
       \<and> confirms (deleteAppointmentsByDate w SubmitEvent) = []
       \<and> fetches (deleteAppointmentsByDate w SubmitEvent) = []
       \<and> uncaught (deleteAppointmentsByDate w SubmitEvent) = None"
  using assms by (simp add: deleteAppointmentsByDate_def observe_defs)

theorem delete_empty_date_validation_witness:
  "getElementById (page (world_of (date_page []) True (replies JNull))) ''deleteDate''
     = Some (date_input [])
   \<and> alerts (deleteAppointmentsByDate (world_of (date_page []) True (replies JNull)) SubmitEvent)
       = [''Please select a date'']
   \<and> fetches (deleteAppointmentsByDate (world_of (date_page []) True (replies JNull)) SubmitEvent) = []
   \<and> confirms (deleteAppointmentsByDate (world_of (date_page []) True (replies JNull)) SubmitEvent) = []"
  using delete_empty_date_validation
    [of "world_of (date_page []) True (replies JNull)"
        "date_input []"]
  by simp

text \<open>
  C7: with \<open>2024-01-01\<close> in the element with id \<open>deleteDate\<close> and the confirmation
  accepted, \<open>deleteAppointmentsByDate\<close> issues one request: a POST to
  \<open>/delete_appointments_by_date\<close> with the header
  \<open>Content-Type: application/x-www-form-urlencoded\<close> and the body \<open>date=2024-01-01\<close>.
\<close>

theorem delete_request_2024_01_01:
  assumes "getElementById (page w) ''deleteDate'' = Some dateInput"
    and "elem_value dateInput = Some ''2024-01-01''"
    and "user_confirms w (delete_prompt ''2024-01-01'')"
  shows "fetches (deleteAppointmentsByDate w SubmitEvent)
           = [\<lparr>req_url = ''/delete_appointments_by_date'',
               req_method = ''POST'',
               req_headers = [(''Content-Type'', ''application/x-www-form-urlencoded'')],
               req_body = Some ''date=2024-01-01''\<rparr>]"
  using assms
  by (auto simp add: deleteAppointmentsByDate_def chain_defs delete_on_data_def delete_on_error_def
        observe_defs delete_request_def
      split: settled.splits sum.splits option.splits response.splits)

theorem delete_request_2024_01_01_witness:
  "user_confirms (world_of (date_page ''2024-01-01'') True (Rejected NetworkError))
     (delete_prompt ''2024-01-01'')
   \<and> map req_body
        (fetches (deleteAppointmentsByDate
           (world_of (date_page ''2024-01-01'') True (Rejected NetworkError)) SubmitEvent))
       = [Some ''date=2024-01-01'']"
  using delete_request_2024_01_01
    [of "world_of (date_page ''2024-01-01'') True (Rejected NetworkError)"
        "date_input ''2024-01-01''"]
  by simp

subsection \<open>Both requests\<close>



text \<open>
  C4: when the body of the response is an object whose \<open>success\<close> is \<open>false\<close> and
  whose \<open>message\<close> is the string \<open>X\<close>, the one alert shown contains \<open>X\<close> (after
  \<open>Error cancelling appointment: \<close> for the cancellation, after \<open>Error: \<close> for the
  deletion) and the page is not reloaded. The request is the one the call issues: the
  confirmation was accepted and, for the deletion, the date is not empty.
\<close>

theorem server_failure_alert_contains_message:
  assumes "get_prop data ''success'' = Inr (JBool False)"
    and "get_prop data ''message'' = Inr (JStr X)"
  shows "(user_confirms w cancel_prompt
          \<and> server w (cancel_request appointmentId) = Fulfilled (Response (Fulfilled data))
        \<longrightarrow> alerts (cancelAppointment w appointmentId) = [''Error cancelling appointment: '' @ X]
          \<and> (\<exists>a \<in> set (alerts (cancelAppointment w appointmentId)). sublist X a)
          \<and> reloads (cancelAppointment w appointmentId) = 0)
       \<and> (getElementById (page w) ''deleteDate'' = Some dateInput
          \<and> elem_value dateInput = Some s \<and> s \<noteq> [] \<and> user_confirms w (delete_prompt s)
          \<and> server w (delete_request s) = Fulfilled (Response (Fulfilled data))
        \<longrightarrow> alerts (deleteAppointmentsByDate w SubmitEvent) = [''Error: '' @ X]
          \<and> (\<exists>a \<in> set (alerts (deleteAppointmentsByDate w SubmitEvent)). sublist X a)
          \<and> reloads (deleteAppointmentsByDate w SubmitEvent) = 0)"
proof -
  have cancel: "alerts (cancelAppointment w appointmentId) = [''Error cancelling appointment: '' @ X]
      \<and> reloads (cancelAppointment w appointmentId) = 0"
    if "user_confirms w cancel_prompt"
      and "server w (cancel_request appointmentId) = Fulfilled (Response (Fulfilled data))"
    using that assms
    by (simp add: cancelAppointment_def chain_defs cancel_on_data_def observe_defs)
  have delete: "alerts (deleteAppointmentsByDate w SubmitEvent) = [''Error: '' @ X]
      \<and> reloads (deleteAppointmentsByDate w SubmitEvent) = 0"
    if "getElementById (page w) ''deleteDate'' = Some dateInput"
      and "elem_value dateInput = Some s" and "s \<noteq> []" and "user_confirms w (delete_prompt s)"
      and "server w (delete_request s) = Fulfilled (Response (Fulfilled data))"
    using that assms
    by (simp add: deleteAppointmentsByDate_def chain_defs delete_on_data_def observe_defs)
  have "sublist X (''Error cancelling appointment: '' @ X)" and "sublist X (''Error: '' @ X)"
    by (rule sublist_after_prefix)+
  with cancel delete show ?thesis by simp
qed

theorem server_failure_alert_contains_message_witness:
  "alerts (cancelAppointment
       (world_of (date_page ''2024-01-01'') True
          (replies (JObj [(''success'', JBool False), (''message'', JStr ''not yours'')])))
       (IdNumber (js_int 7)))
     = [''Error cancelling appointment: not yours'']
   \<and> alerts (deleteAppointmentsByDate
       (world_of (date_page ''2024-01-01'') True
          (replies (JObj [(''success'', JBool False), (''message'', JStr ''not yours'')]))) SubmitEvent)
     = [''Error: not yours'']
   \<and> reloads (deleteAppointmentsByDate
       (world_of (date_page ''2024-01-01'') True
          (replies (JObj [(''success'', JBool False), (''message'', JStr ''not yours'')]))) SubmitEvent) = 0"
  using server_failure_alert_contains_message
    [of "JObj [(''success'', JBool False), (''message'', JStr ''not yours'')]" "''not yours''"
        "world_of (date_page ''2024-01-01'') True
          (replies (JObj [(''success'', JBool False), (''message'', JStr ''not yours'')]))"
        "IdNumber (js_int 7)"
        "date_input ''2024-01-01''"
        "''2024-01-01''"]
  by (simp add: replies_def)

text \<open>
  C6: when the request of either flow fails, rejected by the network or answered with a
  body that does not parse, the call logs the failure to the console once, shows one alert,
  the generic one of its flow, and leaves no exception uncaught; the page is not reloaded.
\<close>

theorem request_failure_one_log_one_alert:
  "(user_confirms w cancel_prompt
      \<and> failure_of (server w (cancel_request appointmentId)) = Some e
    \<longrightarrow> error_logs (cancelAppointment w appointmentId) = [e]
      \<and> alerts (cancelAppointment w appointmentId) = [''Error cancelling appointment'']
      \<and> reloads (cancelAppointment w appointmentId) = 0
      \<and> uncaught (cancelAppointment w appointmentId) = None)
   \<and> (getElementById (page w) ''deleteDate'' = Some dateInput
      \<and> elem_value dateInput = Some s \<and> s \<noteq> [] \<and> user_confirms w (delete_prompt s)
      \<and> failure_of (server w (delete_request s)) = Some e
    \<longrightarrow> error_logs (deleteAppointmentsByDate w SubmitEvent) = [e]
      \<and> alerts (deleteAppointmentsByDate w SubmitEvent) = [''Error deleting appointments'']
      \<and> reloads (deleteAppointmentsByDate w SubmitEvent) = 0
      \<and> uncaught (deleteAppointmentsByDate w SubmitEvent) = None)"
proof -
  have cancel: "error_logs (cancelAppointment w appointmentId) = [e]
      \<and> alerts (cancelAppointment w appointmentId) = [''Error cancelling appointment'']
      \<and> reloads (cancelAppointment w appointmentId) = 0
      \<and> uncaught (cancelAppointment w appointmentId) = None"
    if "user_confirms w cancel_prompt"
      and "failure_of (server w (cancel_request appointmentId)) = Some e"
    using that
    by (cases "server w (cancel_request appointmentId)" rule: failure_of.cases)
       (simp_all add: cancelAppointment_def chain_defs cancel_on_error_def observe_defs)
  have delete: "error_logs (deleteAppointmentsByDate w SubmitEvent) = [e]
      \<and> alerts (deleteAppointmentsByDate w SubmitEvent) = [''Error deleting appointments'']
      \<and> reloads (deleteAppointmentsByDate w SubmitEvent) = 0
      \<and> uncaught (deleteAppointmentsByDate w SubmitEvent) = None"
    if "getElementById (page w) ''deleteDate'' = Some dateInput"
      and "elem_value dateInput = Some s" and "s \<noteq> []" and "user_confirms w (delete_prompt s)"
      and "failure_of (server w (delete_request s)) = Some e"
    using that
    by (cases "server w (delete_request s)" rule: failure_of.cases)
       (simp_all add: deleteAppointmentsByDate_def chain_defs delete_on_error_def observe_defs)
  from cancel delete show ?thesis by simp
qed

theorem request_failure_one_log_one_alert_witness:
  "error_logs (cancelAppointment
       (world_of (date_page ''2024-01-01'') True (Rejected NetworkError)) (IdNumber (js_int 7)))
     = [NetworkError]
   \<and> alerts (cancelAppointment
       (world_of (date_page ''2024-01-01'') True (Rejected NetworkError)) (IdNumber (js_int 7)))
     = [''Error cancelling appointment'']
   \<and> error_logs (deleteAppointmentsByDate
       (world_of (date_page ''2024-01-01'') True (Rejected NetworkError)) SubmitEvent)
     = [NetworkError]
   \<and> alerts (deleteAppointmentsByDate
       (world_of (date_page ''2024-01-01'') True (Rejected NetworkError)) SubmitEvent)
     = [''Error deleting appointments'']"
  using request_failure_one_log_one_alert
    [of "world_of (date_page ''2024-01-01'') True (Rejected NetworkError)" "IdNumber (js_int 7)" NetworkError
        "date_input ''2024-01-01''"
        "''2024-01-01''"]
  by simp

subsection \<open>Alert auto-dismiss\<close>

lemma handle_add_class_at [simp]: "handle (add_class_at t c e) = handle e"
  by (cases e) simp

lemma handle_detach [simp]: "handle (detach t e) = handle e"
  by (cases e) simp

lemma handle_add_class_where [simp]: "handle (add_class_where P c e) = handle e"
  by (cases e) simp

lemma handle_without [simp]: "handle (without P e) = handle e"
  by (cases e) simp

lemma add_class_where_after_at:
  "add_class_where (\<lambda>e. handle e \<in> H) c (add_class_at t c e)
     = add_class_where (\<lambda>e. handle e \<in> insert t H) c e"
  by (induction e) auto

lemma add_class_where_none [simp]: "add_class_where (\<lambda>e. False) c e = e"
  by (induction e) (auto simp add: map_idI)

lemma without_after_detach:
  "without (\<lambda>e. handle e \<in> H) (detach t e) = without (\<lambda>e. handle e \<in> insert t H) e"
proof (induction e)
  case (Element h i cs v ks)
  have "filter (\<lambda>k. handle k \<notin> H) (map (detach t) (filter (\<lambda>k. handle k \<noteq> t) ks))
      = map (detach t) (filter (\<lambda>k. handle k \<notin> insert t H) ks)"
    by (simp add: filter_map comp_def conj_commute)
  moreover have "without (\<lambda>e. handle e \<in> H) (detach t k)
      = without (\<lambda>e. handle e \<in> insert t H) k" if "k \<in> set ks" for k
    using that by (rule Element.IH)
  ultimately show ?case by simp
qed

lemma without_all_after_detach_all:
  "without_all (\<lambda>e. handle e \<in> H) (detach_all t d)
     = without_all (\<lambda>e. handle e \<in> insert t H) d"
  by (simp add: without_all_def detach_all_def filter_map comp_def conj_commute
        without_after_detach)

lemma without_all_none [simp]: "without_all (\<lambda>e. False) d = d"
proof -
  have "without (\<lambda>e. False) e = e" for e
    by (induction e) (auto simp add: map_idI)
  then show ?thesis by (simp add: without_all_def map_idI)
qed

lemma without_after_add_class:
  "handle e \<notin> H \<Longrightarrow>
   without (\<lambda>e. handle e \<in> H) (add_class_where (\<lambda>e. handle e \<in> H) c e)
     = without (\<lambda>e. handle e \<in> H) e"
  by (induction e) (auto simp add: filter_map comp_def)

lemma without_all_after_add_class:
  "without_all (\<lambda>e. handle e \<in> H) (map (add_class_where (\<lambda>e. handle e \<in> H) c) d)
     = without_all (\<lambda>e. handle e \<in> H) d"
  by (auto simp add: without_all_def filter_map comp_def without_after_add_class)

lemma add_class_where_cong:
  "(\<And>x. x \<in> set (elements e) \<Longrightarrow> P x = Q x) \<Longrightarrow> add_class_where P c e = add_class_where Q c e"
  by (induction e) auto

lemma without_cong:
  "(\<And>x. x \<in> set (elements e) \<Longrightarrow> P x = Q x) \<Longrightarrow> without P e = without Q e"
proof (induction e)
  case (Element h i cs v ks)
  have sub: "x \<in> set (elements (Element h i cs v ks))" if "k \<in> set ks" "x \<in> set (elements k)" for k x
    using that by auto
  have root: "k \<in> set (elements k)" for k by (cases k) simp
  have "filter (\<lambda>k. \<not> P k) ks = filter (\<lambda>k. \<not> Q k) ks"
    by (rule filter_cong [OF refl]) (use Element.prems sub root in blast)
  moreover have "without P k = without Q k" if "k \<in> set ks" for k
    using that Element.prems sub by (intro Element.IH) blast+
  ultimately show ?case by simp
qed

lemma pick_None_iff: "pick ts = None \<longleftrightarrow> ts = []"
  by (cases ts) (auto split: option.splits)

lemma pick_mem: "pick ts = Some (m, rest) \<Longrightarrow> m \<in> set ts"
  by (induction ts arbitrary: m rest) (auto split: option.splits if_splits)

lemma pick_head:
  assumes "\<forall>x \<in> set ts. fst t \<le> fst x"
  shows "pick (t # ts) = Some (t, ts)"
proof (cases "pick ts")
  case None
  then show ?thesis by (simp add: pick_None_iff)
next
  case (Some p)
  obtain m rest where p: "p = (m, rest)" by (cases p)
  with Some have "m \<in> set ts" by (auto dest: pick_mem)
  with assms have "fst t \<le> fst m" by blast
  with Some p show ?thesis by simp
qed

lemma run_until_not_due:
  assumes "\<forall>x \<in> set (timers b). T < fst x"
  shows "run_until T b = b\<lparr>now := max (now b) T\<rparr>"
proof (cases "pick (timers b)")
  case None
  then show ?thesis by (simp add: run_until.simps)
next
  case (Some p)
  obtain due callback rest where p: "p = ((due, callback), rest)" by (cases p) auto
  with Some have "(due, callback) \<in> set (timers b)" by (auto dest: pick_mem)
  with assms have "T < due" by fastforce
  with Some p show ?thesis by (simp add: run_until.simps)
qed

lemma foldl_setTimeout:
  "foldl (\<lambda>b' a. setTimeout (f a) delay b') b as
     = b\<lparr>timers := timers b @ map (\<lambda>a. (now b + delay, f a)) as\<rparr>"
  by (induction as arbitrary: b) (simp_all add: setTimeout_def)

lemma autoDismissAlerts_timers:
  "autoDismissAlerts b
     = b\<lparr>timers := timers b
          @ map (\<lambda>a. (now b + 1500, FadeOut (handle a)))
              (querySelectorAll (document b) alert_selector)\<rparr>"
  by (simp add: autoDismissAlerts_def foldl_setTimeout)


lemma classList_add_fade_out [simp]:
  "classList_add h ''alert-fade-out'' b = Inr (class_added h ''alert-fade-out'' b)"
  by (simp add: classList_add_def ascii_whitespace_def)

lemma run_until_fades:
  assumes "timers b = map (\<lambda>h. (d, FadeOut h)) hs @ map (\<lambda>h. (d + 500, RemoveAlert h)) gs"
    and "now b \<le> d" and "d \<le> T"
  shows "run_until T b
     = run_until T
         (b\<lparr>now := (if hs = [] then now b else d),
            document := map (add_class_where (\<lambda>e. handle e \<in> set hs) ''alert-fade-out'')
                          (document b),
            timers := map (\<lambda>h. (d + 500, RemoveAlert h)) (gs @ hs),
            dom_log := dom_log b @ map (\<lambda>h. (d, ClassAdded h ''alert-fade-out'')) hs\<rparr>)"
  using assms
proof (induction hs arbitrary: b gs)
  case Nil
  from Nil.prems(1) [symmetric] show ?case by (simp add: map_idI)
next
  case (Cons h hs)
  let ?rest = "map (\<lambda>h. (d, FadeOut h)) hs @ map (\<lambda>h. (d + 500, RemoveAlert h)) gs"
  let ?b1 = "run_task (FadeOut h) (b\<lparr>now := max (now b) d, timers := ?rest\<rparr>)"
  have "pick (timers b) = Some ((d, FadeOut h), ?rest)"
    using Cons.prems(1) by (simp only: list.map append_Cons) (rule pick_head, auto)
  then have step: "run_until T b = run_until T ?b1"
    using Cons.prems(3) by (subst run_until.simps) simp
  have t1: "timers ?b1 = map (\<lambda>h. (d, FadeOut h)) hs
               @ map (\<lambda>h. (d + 500, RemoveAlert h)) (gs @ [h])"
    using Cons.prems(2) by (simp add: setTimeout_def class_added_def max_def)
  have n1: "now ?b1 = d"
    using Cons.prems(2) by (simp add: setTimeout_def class_added_def max_def)
  have "run_until T ?b1 = run_until T
         (?b1\<lparr>now := (if hs = [] then now ?b1 else d),
            document := map (add_class_where (\<lambda>e. handle e \<in> set hs) ''alert-fade-out'')
                          (document ?b1),
            timers := map (\<lambda>h. (d + 500, RemoveAlert h)) ((gs @ [h]) @ hs),
            dom_log := dom_log ?b1 @ map (\<lambda>h. (d, ClassAdded h ''alert-fade-out'')) hs\<rparr>)"
    using t1 n1 Cons.prems(3) by (intro Cons.IH) simp_all
  also have "(?b1\<lparr>now := (if hs = [] then now ?b1 else d),
            document := map (add_class_where (\<lambda>e. handle e \<in> set hs) ''alert-fade-out'')
                          (document ?b1),
            timers := map (\<lambda>h. (d + 500, RemoveAlert h)) ((gs @ [h]) @ hs),
            dom_log := dom_log ?b1 @ map (\<lambda>h. (d, ClassAdded h ''alert-fade-out'')) hs\<rparr>)
     = b\<lparr>now := (if h # hs = [] then now b else d),
            document := map (add_class_where (\<lambda>e. handle e \<in> set (h # hs)) ''alert-fade-out'')
                          (document b),
            timers := map (\<lambda>h. (d + 500, RemoveAlert h)) (gs @ h # hs),
            dom_log := dom_log b @ map (\<lambda>h. (d, ClassAdded h ''alert-fade-out'')) (h # hs)\<rparr>"
    using Cons.prems(2) add_class_where_after_at [of "set hs" "''alert-fade-out''" h]
    by (simp add: setTimeout_def class_added_def max_def)
  finally show ?case using step by simp
qed

lemma run_until_removes:
  assumes "timers b = map (\<lambda>h. (d, RemoveAlert h)) gs" and "now b \<le> d" and "d \<le> T"
  shows "run_until T b
     = b\<lparr>now := T,
          document := without_all (\<lambda>e. handle e \<in> set gs) (document b),
          timers := [],
          dom_log := dom_log b @ map (\<lambda>h. (d, NodeRemoved h)) gs\<rparr>"
  using assms
proof (induction gs arbitrary: b)
  case Nil
  then have "run_until T b = b\<lparr>now := max (now b) T\<rparr>"
    by (simp add: run_until.simps)
  with Nil show ?case by (cases b) (simp add: max_def)
next
  case (Cons h gs)
  let ?rest = "map (\<lambda>h. (d, RemoveAlert h)) gs"
  let ?b1 = "run_task (RemoveAlert h) (b\<lparr>now := max (now b) d, timers := ?rest\<rparr>)"
  have "pick (timers b) = Some ((d, RemoveAlert h), ?rest)"
    using Cons.prems(1) by (simp only: list.map) (rule pick_head, auto)
  then have step: "run_until T b = run_until T ?b1"
    using Cons.prems(3) by (subst run_until.simps) simp
  have "run_until T ?b1
     = ?b1\<lparr>now := T,
          document := without_all (\<lambda>e. handle e \<in> set gs) (document ?b1),
          timers := [],
          dom_log := dom_log ?b1 @ map (\<lambda>h. (d, NodeRemoved h)) gs\<rparr>"
    using Cons.prems(2,3) by (intro Cons.IH) (simp_all add: remove_node_def max_def)
  also have "\<dots> = b\<lparr>now := T,
          document := without_all (\<lambda>e. handle e \<in> set (h # gs)) (document b),
          timers := [],
          dom_log := dom_log b @ map (\<lambda>h. (d, NodeRemoved h)) (h # gs)\<rparr>"
    using Cons.prems(2) without_all_after_detach_all [of "set gs" h "document b"]
    by (simp add: remove_node_def max_def)
  finally show ?case using step by simp
qed

lemma handle_of_selected:
  assumes "distinct (map handle xs)" and "e \<in> set xs"
  shows "handle e \<in> set (map handle (filter P xs)) \<longleftrightarrow> P e"
proof
  assume "handle e \<in> set (map handle (filter P xs))"
  then obtain e' where e': "e' \<in> set xs" "P e'" "handle e' = handle e" by auto
  from assms(1) have "inj_on handle (set xs)" by (simp add: distinct_map)
  with e' assms(2) have "e' = e" by (auto dest: inj_onD)
  with e' show "P e" by simp
next
  assume "P e"
  with assms(2) show "handle e \<in> set (map handle (filter P xs))" by auto
qed

lemma elements_in_all: "e \<in> set d \<Longrightarrow> x \<in> set (elements e) \<Longrightarrow> x \<in> set (all_elements d)"
  by (auto simp add: all_elements_def)

lemma element_in_all: "e \<in> set d \<Longrightarrow> e \<in> set (all_elements d)"
  by (cases e) (auto simp add: all_elements_def intro!: bexI [of _ e])

lemma add_class_selected:
  assumes "distinct (map handle (all_elements d))"
  shows "map (add_class_where (\<lambda>e. handle e \<in> set (map handle (querySelectorAll d sel))) c) d
       = map (add_class_where (matches sel) c) d"
proof (rule map_cong [OF refl])
  fix e assume "e \<in> set d"
  show "add_class_where (\<lambda>e. handle e \<in> set (map handle (querySelectorAll d sel))) c e
      = add_class_where (matches sel) c e"
    unfolding querySelectorAll_def
    by (rule add_class_where_cong)
       (rule handle_of_selected [OF assms], rule elements_in_all [OF \<open>e \<in> set d\<close>])
qed

lemma without_all_cong:
  assumes "\<And>x. x \<in> set (all_elements d) \<Longrightarrow> P x = Q x"
  shows "without_all P d = without_all Q d"
proof -
  have "filter (\<lambda>k. \<not> P k) d = filter (\<lambda>k. \<not> Q k) d"
    by (rule filter_cong [OF refl]) (simp add: assms element_in_all)
  moreover have "without P e = without Q e" if "e \<in> set d" for e
    by (rule without_cong) (rule assms, rule elements_in_all [OF that])
  ultimately show ?thesis by (simp add: without_all_def)
qed

lemma without_all_selected:
  assumes "distinct (map handle (all_elements d))"
  shows "without_all (\<lambda>e. handle e \<in> set (map handle (querySelectorAll d sel))) d
       = without_all (matches sel) d"
  unfolding querySelectorAll_def
  by (rule without_all_cong) (rule handle_of_selected [OF assms])

text \<open>
  C9: \<open>autoDismissAlerts\<close>, called at time \<open>now b\<close> with no other timer pending, sets
  one timer for each element classed \<open>alert-success\<close> or \<open>alert-danger\<close>. Until 1500 ms
  have passed the document is as it was. From 1500 ms on each of these elements has the
  class \<open>alert-fade-out\<close>, added at 1500 ms, and nothing else has changed. From
  1500 + 500 ms on each of them is out of the document, removed at 2000 ms, no timer is
  left, and every other element is as it was (what an alert contained left with it). The
  log shows that every change was made to a matched element. Time is the time the timers
  are due. Handles identify the elements of the document.
\<close>

theorem alerts_fade_then_leave:
  assumes "timers b = []" and "distinct (map handle (all_elements (document b)))"
  shows "(T < now b + 1500 \<longrightarrow>
            document (run_until T (autoDismissAlerts b)) = document b
          \<and> dom_log (run_until T (autoDismissAlerts b)) = dom_log b)
       \<and> (now b + 1500 \<le> T \<and> T < now b + 1500 + 500 \<longrightarrow>
            document (run_until T (autoDismissAlerts b))
              = map (add_class_where (matches alert_selector) ''alert-fade-out'') (document b)
          \<and> dom_log (run_until T (autoDismissAlerts b))
              = dom_log b
                @ map (\<lambda>e. (now b + 1500, ClassAdded (handle e) ''alert-fade-out''))
                    (querySelectorAll (document b) alert_selector))
       \<and> (now b + 1500 + 500 \<le> T \<longrightarrow>
            document (run_until T (autoDismissAlerts b))
              = without_all (matches alert_selector) (document b)
          \<and> dom_log (run_until T (autoDismissAlerts b))
              = dom_log b
                @ map (\<lambda>e. (now b + 1500, ClassAdded (handle e) ''alert-fade-out''))
                    (querySelectorAll (document b) alert_selector)
                @ map (\<lambda>e. (now b + 1500 + 500, NodeRemoved (handle e)))
                    (querySelectorAll (document b) alert_selector)
          \<and> timers (run_until T (autoDismissAlerts b)) = [])"
proof -
  let ?as = "querySelectorAll (document b) alert_selector"
  let ?hs = "map handle ?as"
  let ?d = "now b + 1500"
  let ?b0 = "autoDismissAlerts b"
  let ?b1 = "?b0\<lparr>now := (if ?hs = [] then now ?b0 else ?d),
            document := map (add_class_where (\<lambda>e. handle e \<in> set ?hs) ''alert-fade-out'')
                          (document ?b0),
            timers := map (\<lambda>h. (?d + 500, RemoveAlert h)) ([] @ ?hs),
            dom_log := dom_log ?b0 @ map (\<lambda>h. (?d, ClassAdded h ''alert-fade-out'')) ?hs\<rparr>"
  have b0: "timers ?b0 = map (\<lambda>h. (?d, FadeOut h)) ?hs @ map (\<lambda>h. (?d + 500, RemoveAlert h)) []"
    "now ?b0 = now b" "document ?b0 = document b" "dom_log ?b0 = dom_log b"
    using assms(1)
    by (simp_all add: autoDismissAlerts_timers comp_def)
  have early: "run_until T ?b0 = ?b0\<lparr>now := max (now ?b0) T\<rparr>" if "T < ?d"
    using that by (intro run_until_not_due) (auto simp add: b0(1))
  have faded: "run_until T ?b0 = run_until T ?b1" if "?d \<le> T"
    using b0(1) _ that by (rule run_until_fades) (simp add: b0(2))
  have middle: "run_until T ?b1 = ?b1\<lparr>now := max (now ?b1) T\<rparr>" if "T < ?d + 500"
    using that by (intro run_until_not_due) auto
  have late: "run_until T ?b1
     = ?b1\<lparr>now := T,
          document := without_all (\<lambda>e. handle e \<in> set ?hs) (document ?b1),
          timers := [],
          dom_log := dom_log ?b1 @ map (\<lambda>h. (?d + 500, NodeRemoved h)) ?hs\<rparr>" if "?d + 500 \<le> T"
    using _ _ that by (rule run_until_removes) (simp_all add: b0(2))
  have doc_faded: "map (add_class_where (\<lambda>e. handle e \<in> set ?hs) ''alert-fade-out'') (document b)
      = map (add_class_where (matches alert_selector) ''alert-fade-out'') (document b)"
    by (rule add_class_selected [OF assms(2)])
  have doc_left: "without_all (\<lambda>e. handle e \<in> set ?hs)
        (map (add_class_where (\<lambda>e. handle e \<in> set ?hs) ''alert-fade-out'') (document b))
      = without_all (matches alert_selector) (document b)"
    by (simp only: without_all_after_add_class without_all_selected [OF assms(2)])
  have 1: "document (run_until T ?b0) = document b \<and> dom_log (run_until T ?b0) = dom_log b"
    if "T < ?d"
    using early [OF that] b0 by simp
  have 2: "document (run_until T ?b0)
              = map (add_class_where (matches alert_selector) ''alert-fade-out'') (document b)
          \<and> dom_log (run_until T ?b0)
              = dom_log b @ map (\<lambda>e. (?d, ClassAdded (handle e) ''alert-fade-out'')) ?as"
    if "?d \<le> T" and "T < ?d + 500"
    using faded [OF that(1)] middle [OF that(2)] b0(2-4) doc_faded by (simp add: comp_def)
  have 3: "document (run_until T ?b0) = without_all (matches alert_selector) (document b)
          \<and> dom_log (run_until T ?b0)
              = dom_log b @ map (\<lambda>e. (?d, ClassAdded (handle e) ''alert-fade-out'')) ?as
                @ map (\<lambda>e. (?d + 500, NodeRemoved (handle e))) ?as
          \<and> timers (run_until T ?b0) = []"
    if "?d + 500 \<le> T"
  proof -
    from that have "?d \<le> T" by simp
    from faded [OF this] late [OF that] b0(2-4) doc_left
    show ?thesis by (simp add: comp_def)
  qed
  from 1 2 3 show ?thesis by blast
qed

theorem alerts_fade_then_leave_witness:
  "timers (fresh_browser flash_page) = []
   \<and> distinct (map handle (all_elements (document (fresh_browser flash_page))))
   \<and> document (run_until 1000 (autoDismissAlerts (fresh_browser flash_page))) = flash_page
   \<and> document (run_until 1700 (autoDismissAlerts (fresh_browser flash_page)))
       = [Element 0 ''main'' [''container''] None
            [Element 1 [] [''alert'', ''alert-success'', ''alert-fade-out''] None
               [Element 2 [] [''btn-close''] None []],
             Element 3 [] [''alert'', ''alert-danger'', ''alert-fade-out''] None [],
             Element 4 ''appointments'' [''table''] None []]]
   \<and> document (run_until 2000 (autoDismissAlerts (fresh_browser flash_page)))
       = [Element 0 ''main'' [''container''] None
            [Element 4 ''appointments'' [''table''] None []]]
   \<and> dom_log (run_until 2000 (autoDismissAlerts (fresh_browser flash_page)))
       = [(1500, ClassAdded 1 ''alert-fade-out''), (1500, ClassAdded 3 ''alert-fade-out''),
          (2000, NodeRemoved 1), (2000, NodeRemoved 3)]"
proof -
  have t: "timers (fresh_browser flash_page) = []"
    by (simp add: fresh_browser_def)
  have d: "distinct (map handle (all_elements (document (fresh_browser flash_page))))"
    by (simp add: fresh_browser_def flash_page_def all_elements_def)
  have sel: "querySelectorAll flash_page alert_selector
      = [Element 1 [] [''alert'', ''alert-success''] None [Element 2 [] [''btn-close''] None []],
         Element 3 [] [''alert'', ''alert-danger''] None []]"
    by (simp add: querySelectorAll_def all_elements_def flash_page_def matches_def has_class_def
          alert_selector_def)
  have faded: "map (add_class_where (matches alert_selector) ''alert-fade-out'') flash_page
      = [Element 0 ''main'' [''container''] None
            [Element 1 [] [''alert'', ''alert-success'', ''alert-fade-out''] None
               [Element 2 [] [''btn-close''] None []],
             Element 3 [] [''alert'', ''alert-danger'', ''alert-fade-out''] None [],
             Element 4 ''appointments'' [''table''] None []]]"
    by (simp add: flash_page_def matches_def has_class_def alert_selector_def)
  have left: "without_all (matches alert_selector) flash_page
      = [Element 0 ''main'' [''container''] None
            [Element 4 ''appointments'' [''table''] None []]]"
    by (simp add: without_all_def flash_page_def matches_def has_class_def alert_selector_def)
  have doc: "document (fresh_browser flash_page) = flash_page"
    and log: "dom_log (fresh_browser flash_page) = []"
    and clock: "now (fresh_browser flash_page) = 0"
    by (simp_all add: fresh_browser_def)
  from alerts_fade_then_leave [OF t d, of 1000] alerts_fade_then_leave [OF t d, of 1700]
    alerts_fade_then_leave [OF t d, of 2000] t d
  show ?thesis
    by (simp add: doc log clock sel faded left)
qed

subsection \<open>Exceptions\<close>

lemma finish_caught:
  assumes "\<And>e. snd (f e) = Fulfilled ()"
  shows "uncaught (finish es (catch_p p f)) = None"
proof (cases p)
  case (Pair es' r)
  show ?thesis
  proof (cases r)
    case (Fulfilled x)
    with Pair show ?thesis by (simp add: finish_def catch_p_def)
  next
    case (Rejected e)
    obtain es'' r' where f: "f e = (es'', r')" by (cases "f e")
    with assms [of e] have "r' = Fulfilled ()" by simp
    with Pair Rejected f show ?thesis by (simp add: finish_def catch_p_def)
  qed
qed

lemma thrown_run_task [simp]: "thrown (run_task t b) = thrown b"
  by (cases t) (simp_all add: setTimeout_def class_added_def remove_node_def)

lemma thrown_run_until [simp]: "thrown (run_until T b) = thrown b"
proof (induction T b rule: run_until.induct)
  case (1 T b)
  show ?case
  proof (cases "pick (timers b)")
    case None
    then show ?thesis by (subst run_until.simps) simp
  next
    case (Some p)
    obtain due callback rest where p: "p = ((due, callback), rest)" by (cases p) auto
    show ?thesis
    proof (cases "due \<le> T")
      case True
      with Some p have "run_until T b
          = run_until T (run_task callback (b\<lparr>now := max (now b) due, timers := rest\<rparr>))"
        by (subst run_until.simps) simp
      moreover from Some p True
      have "thrown (run_until T (run_task callback (b\<lparr>now := max (now b) due, timers := rest\<rparr>)))
          = thrown (run_task callback (b\<lparr>now := max (now b) due, timers := rest\<rparr>))"
        by (intro "1.IH") simp_all
      ultimately show ?thesis by simp
    next
      case False
      with Some p show ?thesis by (subst run_until.simps) simp
    qed
  qed
qed

lemma thrown_autoDismissAlerts [simp]: "thrown (autoDismissAlerts b) = thrown b"
  by (simp add: autoDismissAlerts_timers)

text \<open>
  C2, as the code has it: when the host page keeps its side (\<open>deleteAppointmentsByDate\<close>
  is called with the submit event, on a page that has an element with id
  \<open>deleteDate\<close>), then for every string or number identifier, every answer of the user and
  every outcome of the request, no call of \<open>showPatientsList\<close>, \<open>consultPatients\<close>,
  \<open>showAppointmentDetails\<close>, \<open>cancelAppointment\<close> or \<open>deleteAppointmentsByDate\<close>
  leaves an exception uncaught; \<open>autoDismissAlerts\<close> and the timers it sets, run until any
  time, throw nothing, whatever the document; and a request the network rejects is logged
  and answered with the generic alert of its flow.
\<close>

theorem no_uncaught_exception_on_host_contract:
  "uncaught (showPatientsList w) = None
   \<and> uncaught (consultPatients w) = None
   \<and> uncaught (showAppointmentDetails w appointmentId) = None
   \<and> uncaught (cancelAppointment w appointmentId) = None
   \<and> (getElementById (page w) ''deleteDate'' \<noteq> None
      \<longrightarrow> uncaught (deleteAppointmentsByDate w SubmitEvent) = None)
   \<and> thrown (autoDismissAlerts b) = thrown b
   \<and> thrown (run_until T (autoDismissAlerts b)) = thrown b
   \<and> (user_confirms w cancel_prompt \<and> server w (cancel_request appointmentId) = Rejected e
      \<longrightarrow> effects (cancelAppointment w appointmentId)
            = [Confirm cancel_prompt, Fetch (cancel_request appointmentId),
               ConsoleError ''Error:'' e, Alert ''Error cancelling appointment''])
   \<and> (getElementById (page w) ''deleteDate'' = Some dateInput
        \<and> elem_value dateInput = Some s \<and> s \<noteq> [] \<and> user_confirms w (delete_prompt s)
        \<and> server w (delete_request s) = Rejected e
      \<longrightarrow> effects (deleteAppointmentsByDate w SubmitEvent)
            = [PreventDefault, Confirm (delete_prompt s), Fetch (delete_request s),
               ConsoleError ''Error:'' e, Alert ''Error deleting appointments''])"
proof -
  have cancel: "uncaught (cancelAppointment w appointmentId) = None"
    by (simp add: cancelAppointment_def finish_caught cancel_on_error_def)
  have delete: "uncaught (deleteAppointmentsByDate w SubmitEvent) = None"
    if "getElementById (page w) ''deleteDate'' \<noteq> None"
    using that
    by (auto simp add: deleteAppointmentsByDate_def finish_caught delete_on_error_def
          split: option.splits)
  have cancel_net: "effects (cancelAppointment w appointmentId)
            = [Confirm cancel_prompt, Fetch (cancel_request appointmentId),
               ConsoleError ''Error:'' e, Alert ''Error cancelling appointment'']"
    if "user_confirms w cancel_prompt" "server w (cancel_request appointmentId) = Rejected e"
    using that by (simp add: cancelAppointment_def chain_defs cancel_on_error_def)
  have delete_net: "effects (deleteAppointmentsByDate w SubmitEvent)
            = [PreventDefault, Confirm (delete_prompt s), Fetch (delete_request s),
               ConsoleError ''Error:'' e, Alert ''Error deleting appointments'']"
    if "getElementById (page w) ''deleteDate'' = Some dateInput" "elem_value dateInput = Some s"
      "s \<noteq> []" "user_confirms w (delete_prompt s)" "server w (delete_request s) = Rejected e"
    using that by (simp add: deleteAppointmentsByDate_def chain_defs delete_on_error_def)
  from cancel delete cancel_net delete_net show ?thesis
    by (simp add: showPatientsList_def consultPatients_def showAppointmentDetails_def)
qed

theorem no_uncaught_exception_on_host_contract_witness:
  "getElementById (page (world_of (date_page ''2024-01-01'') True (Rejected NetworkError)))
       ''deleteDate'' \<noteq> None
   \<and> uncaught (deleteAppointmentsByDate
         (world_of (date_page ''2024-01-01'') True (Rejected NetworkError)) SubmitEvent) = None
   \<and> effects (deleteAppointmentsByDate
         (world_of (date_page ''2024-01-01'') True (Rejected NetworkError)) SubmitEvent)
       = [PreventDefault, Confirm (delete_prompt ''2024-01-01''),
          Fetch (delete_request ''2024-01-01''),
          ConsoleError ''Error:'' NetworkError, Alert ''Error deleting appointments'']
   \<and> effects (cancelAppointment
         (world_of (date_page ''2024-01-01'') True (Rejected NetworkError)) (IdNumber (js_int 7)))
       = [Confirm cancel_prompt, Fetch (cancel_request (IdNumber (js_int 7))),
          ConsoleError ''Error:'' NetworkError, Alert ''Error cancelling appointment'']
   \<and> thrown (run_until 2000 (autoDismissAlerts (fresh_browser flash_page))) = []"
  using no_uncaught_exception_on_host_contract
    [of "world_of (date_page ''2024-01-01'') True (Rejected NetworkError)" "IdNumber (js_int 7)"
        "fresh_browser flash_page" 2000 NetworkError "date_input ''2024-01-01''" "''2024-01-01''"]
  by (simp add: fresh_browser_def)

text \<open>
  C2, as the claim states it, fails, in two ways. On a page with no element of id
  \<open>deleteDate\<close>, \<open>getElementById\<close> gives \<open>null\<close> and \<open>deleteAppointmentsByDate\<close>
  throws a TypeError that nothing catches. And called with no argument, on a page that has
  the element, it throws a TypeError at \<open>event.preventDefault()\<close>.
\<close>

theorem uncaught_outside_host_contract:
  "uncaught (deleteAppointmentsByDate (world_of flash_page True (replies JNull)) SubmitEvent)
     = Some TypeError
   \<and> uncaught (deleteAppointmentsByDate
         (world_of (date_page ''2024-01-01'') True (replies JNull)) (NoEvent JUndefined))
     = Some TypeError"
  by (simp add: deleteAppointmentsByDate_def)

end
